theory Spec2Isabelle
  imports Main
begin

section \<open>Python values, exceptions and path specifications\<close>

text \<open>
  The three source files are Python. Attribute values of a path specification are
  dynamically typed; the values the backends look at are \<open>None\<close>, booleans, integers
  (a row index), strings (a table or column name, a location) and tuples (a row
  condition).
\<close>

datatype pyval = PyNone | PyBool bool | PyInt int | PyStr string | PyTuple "pyval list"

text \<open>
  An exception is known by the class an \<open>except\<close> clause matches it against: the four
  kinds of \<open>dfvfs.lib.errors\<close> and the builtins that the backends document
  (\<open>PathSpecError\<close> is the structural kind, \<open>ValueError\<close> the argument kind), or any
  other class, kept with its name.
\<close>

datatype exn = PathSpecError | AccessError | IOError | ValueError | OtherError string

text \<open>
  A path specification is an object with a class-level type indicator, a dictionary of
  instance attributes and an optional parent path specification.
\<close>

datatype path_spec = PathSpec
  (type_indicator: string)
  (attributes: "(string \<times> pyval) list")
  (parent: "path_spec option")

text \<open>\<open>getattr(path_spec, name, default)\<close>: the attribute, or the default when it is absent.\<close>

definition getattr :: "path_spec \<Rightarrow> string \<Rightarrow> pyval \<Rightarrow> pyval" where
  "getattr path_spec name dflt =
     (case map_of (attributes path_spec) name of None \<Rightarrow> dflt | Some v \<Rightarrow> v)"

text \<open>\<open>path_spec.name\<close>: the attribute, or \<open>AttributeError\<close> when it is absent.\<close>

definition attribute :: "path_spec \<Rightarrow> string \<Rightarrow> exn + pyval" where
  "attribute path_spec name =
     (case map_of (attributes path_spec) name of
        None \<Rightarrow> Inl (OtherError ''AttributeError'')
      | Some v \<Rightarrow> Inr v)"

text \<open>
  Modelled from the spec: \<open>PathSpec.HasParent\<close>, of the base class
  \<open>dfvfs.path.path_spec\<close>, which is not among the sources. A path specification has
  a parent when its parent reference is not \<open>None\<close>.
\<close>

definition HasParent :: "path_spec \<Rightarrow> bool" where
  "HasParent path_spec = (parent path_spec \<noteq> None)"

text \<open>
  Modelled from the spec: the type indicators of \<open>dfvfs.lib.definitions\<close>, which is
  not among the sources. Only their being three tags matters.
\<close>

definition TYPE_INDICATOR_FAKE :: string where
  "TYPE_INDICATOR_FAKE = ''FAKE''"

definition TYPE_INDICATOR_FVDE :: string where
  "TYPE_INDICATOR_FVDE = ''FVDE''"

definition TYPE_INDICATOR_SQLITE_BLOB :: string where
  "TYPE_INDICATOR_SQLITE_BLOB = ''SQLITE_BLOB''"

subsection \<open>fake\_path\_spec.py\<close>

text \<open>
  The keyword arguments of \<open>FakePathSpec.__init__\<close>: the entry under the key
  \<open>parent\<close>, when the caller passed one (\<open>Some None\<close> is \<open>parent=None\<close>), and the
  other entries.
\<close>

record kwargs =
  kw_parent :: "path_spec option option"
  kw_others :: "(string \<times> pyval) list"

text \<open>
  The truth value of \<open>parent\<close> in \<open>if parent:\<close>. \<open>None\<close> is false; a path
  specification object defines neither \<open>__bool__\<close> nor \<open>__len__\<close>, so it is true.
\<close>

definition truthy :: "path_spec option \<Rightarrow> bool" where
  "truthy parent' = (case parent' of None \<Rightarrow> False | Some p \<Rightarrow> True)"

text \<open>
  Modelled from the spec: \<open>LocationPathSpec.__init__\<close>, the base class constructor in
  \<open>dfvfs.path.location_path_spec\<close>, which is not among the sources. It builds the node
  from the tag of the class, the location, the remaining keyword arguments and the
  parent; a location-addressed node has no parent requirement of its own.
\<close>

definition LocationPathSpec_init ::
  "string \<Rightarrow> pyval \<Rightarrow> path_spec option \<Rightarrow> kwargs \<Rightarrow> exn + path_spec" where
  "LocationPathSpec_init tag location parent' kwargs =
     Inr (PathSpec tag ((''location'', location) # kw_others kwargs) parent')"

definition FakePathSpec_init :: "pyval \<Rightarrow> kwargs \<Rightarrow> exn + path_spec" where
  "FakePathSpec_init location kwargs =
     (let (parent', kwargs') =
            (case kw_parent kwargs of
               Some p \<Rightarrow> (p, kwargs\<lparr>kw_parent := None\<rparr>)
             | None \<Rightarrow> (None, kwargs))
      in if truthy parent' then Inl ValueError
         else LocationPathSpec_init TYPE_INDICATOR_FAKE location parent' kwargs')"

section \<open>The collaborators of the backends\<close>

text \<open>
  The backends call the resolver, its key chain, the FVDE helper and the file objects
  the resolver returns. None of them is among the sources: they are the environment
  \<open>env\<close>, and every call that a backend makes of one is recorded, in program order,
  in the trace of the world. The world also holds the key chain of the resolver, a
  class attribute that is read anew wherever the source names it. Two collaborators
  may change it: \<open>ExtractCredentialsFromPathSpec\<close>, and \<open>OpenFileObject\<close>, which
  opens every backend below the path specification it is given, each of which may
  extract credentials of its own. What the resolver does inside a call is not in the
  trace; it shows in the key chain the call leaves.
\<close>

type_synonym resolver_context = nat

type_synonym file_object = nat

type_synonym credentials = "(string \<times> pyval) list"

type_synonym key_chain = "(path_spec \<times> credentials) list"

text \<open>A \<open>pyfvde.volume\<close>: the file object it was opened on, \<open>None\<close> when just created.\<close>

datatype fvde_volume = FVDEVolume (volume_file_object: "file_object option")

definition pyfvde_volume :: fvde_volume where
  "pyfvde_volume = FVDEVolume None"

datatype event =
    ExtractCredentialsFromPathSpec_call path_spec
  | OpenFileObject_call path_spec resolver_context
  | FVDEVolumeOpen_call fvde_volume path_spec file_object key_chain
  | GetNumberOfRows_call file_object
  | close_call file_object
  | volume_close_call fvde_volume

record world =
  key_chain :: key_chain
  trace :: "event list"

record env =
  env_OpenFileObject ::
    "world \<Rightarrow> path_spec \<Rightarrow> resolver_context \<Rightarrow> (exn + file_object) \<times> key_chain"
  env_ExtractCredentialsFromPathSpec :: "world \<Rightarrow> path_spec \<Rightarrow> exn + pyval \<times> key_chain"
  env_FVDEVolumeOpen ::
    "world \<Rightarrow> fvde_volume \<Rightarrow> path_spec \<Rightarrow> file_object \<Rightarrow> key_chain \<Rightarrow> exn + fvde_volume"
  env_GetNumberOfRows :: "world \<Rightarrow> file_object \<Rightarrow> exn + int"

definition record_call :: "event \<Rightarrow> world \<Rightarrow> world" where
  "record_call ev w = w\<lparr>trace := trace w @ [ev]\<rparr>"

text \<open>
  \<open>resolver.Resolver.OpenFileObject(path_spec, resolver_context=...)\<close>: the file object
  or the exception, and the key chain as the call leaves it, whether it returns or
  raises.
\<close>

definition OpenFileObject ::
  "env \<Rightarrow> path_spec \<Rightarrow> resolver_context \<Rightarrow> world \<Rightarrow> (exn + file_object) \<times> world" where
  "OpenFileObject E path_spec ctx w =
     (case env_OpenFileObject E w path_spec ctx of
        (r, kc) \<Rightarrow> (r, (record_call (OpenFileObject_call path_spec ctx) w)\<lparr>key_chain := kc\<rparr>))"

text \<open>
  \<open>resolver.Resolver.key_chain.ExtractCredentialsFromPathSpec(path_spec)\<close>: the value
  the call returns, and the key chain as the call leaves it.
\<close>

definition ExtractCredentialsFromPathSpec ::
  "env \<Rightarrow> path_spec \<Rightarrow> world \<Rightarrow> (exn + pyval) \<times> world" where
  "ExtractCredentialsFromPathSpec E path_spec w =
     (let w1 = record_call (ExtractCredentialsFromPathSpec_call path_spec) w
      in case env_ExtractCredentialsFromPathSpec E w path_spec of
           Inl e \<Rightarrow> (Inl e, w1)
         | Inr (r, kc) \<Rightarrow> (Inr r, w1\<lparr>key_chain := kc\<rparr>))"

text \<open>
  \<open>fvde.FVDEVolumeOpen(fvde_volume, path_spec, file_object, key_chain)\<close>: the unlock of
  the volume. It changes the volume object in place; the model returns the volume.
\<close>

definition FVDEVolumeOpen ::
  "env \<Rightarrow> fvde_volume \<Rightarrow> path_spec \<Rightarrow> file_object \<Rightarrow> key_chain \<Rightarrow> world
   \<Rightarrow> (exn + fvde_volume) \<times> world" where
  "FVDEVolumeOpen E fvde_volume path_spec file_object kc w =
     (env_FVDEVolumeOpen E w fvde_volume path_spec file_object kc,
      record_call (FVDEVolumeOpen_call fvde_volume path_spec file_object kc) w)"

text \<open>\<open>file_object.GetNumberOfRows()\<close>.\<close>

definition GetNumberOfRows :: "env \<Rightarrow> file_object \<Rightarrow> world \<Rightarrow> (exn + int) \<times> world" where
  "GetNumberOfRows E file_object w =
     (env_GetNumberOfRows E w file_object, record_call (GetNumberOfRows_call file_object) w)"

text \<open>
  Modelled from the spec: \<open>file_object.close()\<close>, of the file objects the resolver
  returns, whose class is not among the sources. Closing an object that a successful
  open returned releases its reference and returns.
\<close>

definition close :: "file_object \<Rightarrow> world \<Rightarrow> world" where
  "close file_object w = record_call (close_call file_object) w"

section \<open>File systems and file entries\<close>

text \<open>
  Modelled from the spec: the fields of the base class \<open>dfvfs.vfs.file_system\<close>, which
  is not among the sources. A file system knows its resolver context and, once open,
  its own defining path specification.
\<close>

record file_system =
  fs_resolver_context :: resolver_context
  fs_is_open :: bool
  fs_path_spec :: "path_spec option"

definition FileSystem_init :: "resolver_context \<Rightarrow> file_system" where
  "FileSystem_init ctx = \<lparr>fs_resolver_context = ctx, fs_is_open = False, fs_path_spec = None\<rparr>"

text \<open>
  Modelled from the spec: \<open>FileSystem.Open\<close>, the entry point of the base class, which
  is not among the sources. It runs the \<open>_Open\<close> of the backend and, when that
  succeeds, the instance is open and bound to the path specification that defines it.
\<close>

definition FileSystem_Open ::
  "('a file_system_scheme \<Rightarrow> path_spec \<Rightarrow> world \<Rightarrow> (exn + unit) \<times> 'a file_system_scheme \<times> world)
   \<Rightarrow> 'a file_system_scheme \<Rightarrow> path_spec \<Rightarrow> world
   \<Rightarrow> (exn + unit) \<times> 'a file_system_scheme \<times> world" where
  "FileSystem_Open backend_Open self path_spec w =
     (case backend_Open self path_spec w of
        (Inl e, self1, w1) \<Rightarrow> (Inl e, self1, w1)
      | (Inr u, self1, w1) \<Rightarrow>
          (Inr u, self1\<lparr>fs_is_open := True, fs_path_spec := Some path_spec\<rparr>, w1))"

text \<open>
  Modelled from the spec: the file entry classes \<open>sqlite_blob_file_entry\<close> and
  \<open>fvde_file_entry\<close>, which are not among the sources. An entry records the backend
  it belongs to, the resolver context, the path specification it was made for and
  whether it is the root and virtual. The two flags are keyword arguments; an entry made
  without them is a concrete leaf entry, so both default to false.
\<close>

record file_entry =
  fe_type_indicator :: string
  fe_resolver_context :: resolver_context
  fe_path_spec :: path_spec
  is_root :: bool
  is_virtual :: bool

definition SQLiteBlobFileEntry ::
  "resolver_context \<Rightarrow> path_spec \<Rightarrow> bool \<Rightarrow> bool \<Rightarrow> file_entry" where
  "SQLiteBlobFileEntry ctx path_spec root virtual =
     \<lparr>fe_type_indicator = TYPE_INDICATOR_SQLITE_BLOB, fe_resolver_context = ctx,
      fe_path_spec = path_spec, is_root = root, is_virtual = virtual\<rparr>"

definition is_root_default :: bool where
  "is_root_default = False"

definition is_virtual_default :: bool where
  "is_virtual_default = False"

definition FVDEFileEntry ::
  "resolver_context \<Rightarrow> path_spec \<Rightarrow> bool \<Rightarrow> bool \<Rightarrow> file_entry" where
  "FVDEFileEntry ctx path_spec root virtual =
     \<lparr>fe_type_indicator = TYPE_INDICATOR_FVDE, fe_resolver_context = ctx,
      fe_path_spec = path_spec, is_root = root, is_virtual = virtual\<rparr>"

text \<open>
  Modelled from the spec: the constructors \<open>SQLiteBlobPathSpec\<close> and \<open>FVDEPathSpec\<close>,
  of \<open>dfvfs.path\<close>, which are not among the sources. Both tags wrap an underlying
  byte source, so a missing parent is rejected with the structural error; the node
  carries the attributes it was given.
\<close>

definition given :: "string \<Rightarrow> pyval \<Rightarrow> (string \<times> pyval) list" where
  "given name v = (if v = PyNone then [] else [(name, v)])"

definition SQLiteBlobPathSpec ::
  "pyval \<Rightarrow> pyval \<Rightarrow> pyval \<Rightarrow> pyval \<Rightarrow> path_spec option \<Rightarrow> exn + path_spec" where
  "SQLiteBlobPathSpec table_name column_name row_condition row_index parent' =
     (if parent' = None then Inl PathSpecError
      else Inr (PathSpec TYPE_INDICATOR_SQLITE_BLOB
             ([(''table_name'', table_name), (''column_name'', column_name)]
              @ given ''row_condition'' row_condition @ given ''row_index'' row_index)
             parent'))"

definition FVDEPathSpec :: "path_spec option \<Rightarrow> exn + path_spec" where
  "FVDEPathSpec parent' =
     (if parent' = None then Inl PathSpecError
      else Inr (PathSpec TYPE_INDICATOR_FVDE [] parent'))"

subsection \<open>sqlite\_blob\_file\_system.py\<close>

record sqlite_blob_file_system = file_system +
  sqlite_file_object :: "file_object option"
  sqlite_number_of_rows :: "int option"

definition SQLiteBlobFileSystem_init :: "resolver_context \<Rightarrow> sqlite_blob_file_system" where
  "SQLiteBlobFileSystem_init ctx =
     file_system.extend (FileSystem_init ctx)
       (sqlite_blob_file_system.fields None None)"

text \<open>
  \<open>__init__\<close> runs the constructor of the base class and sets the fields of its own
  to \<open>None\<close>. In \<open>_Close\<close>, \<open>self._file_object.close()\<close> on \<open>None\<close> is an
  \<open>AttributeError\<close>. In \<open>_Open\<close>, past the test of \<open>HasParent\<close>, the parent is not
  \<open>None\<close>, and \<open>the\<close> reads it.
\<close>

definition SQLiteBlobFileSystem__Close ::
  "sqlite_blob_file_system \<Rightarrow> world \<Rightarrow> (exn + unit) \<times> sqlite_blob_file_system \<times> world" where
  "SQLiteBlobFileSystem__Close self w =
     (case sqlite_file_object self of
        None \<Rightarrow> (Inl (OtherError ''AttributeError''), self, w)
      | Some file_object \<Rightarrow>
          (Inr (), self\<lparr>sqlite_file_object := None, sqlite_number_of_rows := None\<rparr>,
           close file_object w))"

definition SQLiteBlobFileSystem__Open ::
  "env \<Rightarrow> sqlite_blob_file_system \<Rightarrow> path_spec \<Rightarrow> world
   \<Rightarrow> (exn + unit) \<times> sqlite_blob_file_system \<times> world" where
  "SQLiteBlobFileSystem__Open E self path_spec w =
     (if \<not> HasParent path_spec then (Inl PathSpecError, self, w)
      else
        (case OpenFileObject E (the (parent path_spec)) (fs_resolver_context self) w of
           (Inl e, w1) \<Rightarrow> (Inl e, self, w1)
         | (Inr file_object, w1) \<Rightarrow>
             (Inr (), self\<lparr>sqlite_file_object := Some file_object\<rparr>, w1)))"

text \<open>The classes named by the \<open>except\<close> clause of \<open>FileEntryExistsByPathSpec\<close>.\<close>

definition caught :: "exn list" where
  "caught = [AccessError, PathSpecError, IOError, ValueError]"

definition SQLiteBlobFileSystem_FileEntryExistsByPathSpec ::
  "env \<Rightarrow> sqlite_blob_file_system \<Rightarrow> path_spec \<Rightarrow> world \<Rightarrow> (exn + bool) \<times> world" where
  "SQLiteBlobFileSystem_FileEntryExistsByPathSpec E self path_spec w =
     (case OpenFileObject E path_spec (fs_resolver_context self) w of
        (Inl e, w1) \<Rightarrow> (if e \<in> set caught then (Inr False, w1) else (Inl e, w1))
      | (Inr file_object, w1) \<Rightarrow> (Inr True, close file_object w1))"

definition SQLiteBlobFileSystem_GetFileEntryByPathSpec ::
  "sqlite_blob_file_system \<Rightarrow> path_spec \<Rightarrow> file_entry" where
  "SQLiteBlobFileSystem_GetFileEntryByPathSpec self path_spec =
     (let row_index = getattr path_spec ''row_index'' PyNone;
          row_condition = getattr path_spec ''row_condition'' PyNone
      in if row_index = PyNone \<and> row_condition = PyNone
         then SQLiteBlobFileEntry (fs_resolver_context self) path_spec True True
         else SQLiteBlobFileEntry (fs_resolver_context self) path_spec
                is_root_default is_virtual_default)"

definition SQLiteBlobFileSystem_GetRootFileEntry ::
  "sqlite_blob_file_system \<Rightarrow> exn + file_entry" where
  "SQLiteBlobFileSystem_GetRootFileEntry self =
     (case fs_path_spec self of
        None \<Rightarrow> Inl (OtherError ''AttributeError'')
      | Some defining \<Rightarrow>
          (case attribute defining ''table_name'' of
             Inl e \<Rightarrow> Inl e
           | Inr table_name \<Rightarrow>
               (case attribute defining ''column_name'' of
                  Inl e \<Rightarrow> Inl e
                | Inr column_name \<Rightarrow>
                    (case SQLiteBlobPathSpec table_name column_name PyNone PyNone
                            (parent defining) of
                       Inl e \<Rightarrow> Inl e
                     | Inr path_spec \<Rightarrow>
                         Inr (SQLiteBlobFileSystem_GetFileEntryByPathSpec self path_spec)))))"

definition SQLiteBlobFileSystem_GetNumberOfRows ::
  "env \<Rightarrow> sqlite_blob_file_system \<Rightarrow> path_spec \<Rightarrow> world
   \<Rightarrow> (exn + int) \<times> sqlite_blob_file_system \<times> world" where
  "SQLiteBlobFileSystem_GetNumberOfRows E self path_spec w =
     (case sqlite_number_of_rows self of
        Some n \<Rightarrow> (Inr n, self, w)
      | None \<Rightarrow>
          (case OpenFileObject E path_spec (fs_resolver_context self) w of
             (Inl e, w1) \<Rightarrow> (Inl e, self, w1)
           | (Inr file_object, w1) \<Rightarrow>
               (case GetNumberOfRows E file_object w1 of
                  (Inl e, w2) \<Rightarrow> (Inl e, self, w2)
                | (Inr n, w2) \<Rightarrow>
                    (Inr n, self\<lparr>sqlite_number_of_rows := Some n\<rparr>, close file_object w2))))"

subsection \<open>fvde\_file\_system.py\<close>

record fvde_file_system = file_system +
  fvde_fvde_volume :: "fvde_volume option"
  fvde_file_object :: "file_object option"

definition FVDEFileSystem_init :: "resolver_context \<Rightarrow> fvde_file_system" where
  "FVDEFileSystem_init ctx =
     file_system.extend (FileSystem_init ctx) (fvde_file_system.fields None None)"

definition FVDEFileSystem__Close ::
  "fvde_file_system \<Rightarrow> world \<Rightarrow> (exn + unit) \<times> fvde_file_system \<times> world" where
  "FVDEFileSystem__Close self w =
     (case fvde_fvde_volume self of
        None \<Rightarrow> (Inl (OtherError ''AttributeError''), self, w)
      | Some fvde_volume \<Rightarrow>
          (let w1 = record_call (volume_close_call fvde_volume) w;
               self1 = self\<lparr>fvde_fvde_volume := None\<rparr>
           in case fvde_file_object self1 of
                None \<Rightarrow> (Inl (OtherError ''AttributeError''), self1, w1)
              | Some file_object \<Rightarrow>
                  (Inr (), self1\<lparr>fvde_file_object := None\<rparr>, close file_object w1)))"

definition FVDEFileSystem__Open ::
  "env \<Rightarrow> fvde_file_system \<Rightarrow> path_spec \<Rightarrow> world
   \<Rightarrow> (exn + unit) \<times> fvde_file_system \<times> world" where
  "FVDEFileSystem__Open E self path_spec w =
     (if \<not> HasParent path_spec then (Inl PathSpecError, self, w)
      else
        (case ExtractCredentialsFromPathSpec E path_spec w of
           (Inl e, w1) \<Rightarrow> (Inl e, self, w1)
         | (Inr r, w1) \<Rightarrow>
             (let fvde_volume = pyfvde_volume
              in case OpenFileObject E (the (parent path_spec)) (fs_resolver_context self) w1 of
                   (Inl e, w2) \<Rightarrow> (Inl e, self, w2)
                 | (Inr file_object, w2) \<Rightarrow>
                     (case FVDEVolumeOpen E fvde_volume path_spec file_object (key_chain w2) w2 of
                        (Inl e, w3) \<Rightarrow> (Inl e, self, close file_object w3)
                      | (Inr opened, w3) \<Rightarrow>
                          (Inr (),
                           self\<lparr>fvde_fvde_volume := Some opened,
                                fvde_file_object := Some file_object\<rparr>,
                           w3)))))"

definition FVDEFileSystem_GetFVDEVolume :: "fvde_file_system \<Rightarrow> fvde_volume option" where
  "FVDEFileSystem_GetFVDEVolume self = fvde_fvde_volume self"

definition FVDEFileSystem_GetFileEntryByPathSpec ::
  "fvde_file_system \<Rightarrow> path_spec \<Rightarrow> file_entry" where
  "FVDEFileSystem_GetFileEntryByPathSpec self path_spec =
     FVDEFileEntry (fs_resolver_context self) path_spec True True"

definition FVDEFileSystem_GetRootFileEntry :: "fvde_file_system \<Rightarrow> exn + file_entry" where
  "FVDEFileSystem_GetRootFileEntry self =
     (case fs_path_spec self of
        None \<Rightarrow> Inl (OtherError ''AttributeError'')
      | Some defining \<Rightarrow>
          (case FVDEPathSpec (parent defining) of
             Inl e \<Rightarrow> Inl e
           | Inr path_spec \<Rightarrow> Inr (FVDEFileSystem_GetFileEntryByPathSpec self path_spec)))"

section \<open>Runs of calls\<close>

text \<open>The calls of collaborators made between two worlds, in order.\<close>

definition calls_since :: "world \<Rightarrow> world \<Rightarrow> event list" where
  "calls_since w w' = drop (length (trace w)) (trace w')"

text \<open>
  A caller that asks one file system for the number of rows again and again, once for
  each path specification of the list, and collects what each call returned.
\<close>

fun GetNumberOfRows_calls ::
  "env \<Rightarrow> sqlite_blob_file_system \<Rightarrow> path_spec list \<Rightarrow> world
   \<Rightarrow> (exn + int) list \<times> sqlite_blob_file_system \<times> world" where
  "GetNumberOfRows_calls E self [] w = ([], self, w)"
| "GetNumberOfRows_calls E self (path_spec # rest) w =
     (case SQLiteBlobFileSystem_GetNumberOfRows E self path_spec w of
        (r, self1, w1) \<Rightarrow>
          (case GetNumberOfRows_calls E self1 rest w1 of
             (rs, self2, w2) \<Rightarrow> (r # rs, self2, w2)))"

text \<open>
  An environment equal to another but for the value that
  \<open>ExtractCredentialsFromPathSpec\<close> returns.
\<close>

definition returning :: "pyval \<Rightarrow> env \<Rightarrow> env" where
  "returning r E =
     E\<lparr>env_ExtractCredentialsFromPathSpec :=
         (\<lambda>w s. case env_ExtractCredentialsFromPathSpec E w s of
                  Inl e \<Rightarrow> Inl e
                | Inr (r0, kc) \<Rightarrow> Inr (r, kc))\<rparr>"

section \<open>Concrete inputs\<close>

text \<open>
  A disk image addressed by its location, an encrypted volume and a table inside it,
  rows of the table, and three environments: one in which every collaborator succeeds,
  one whose volume stays locked, and one whose resolver raises a given exception.
\<close>

definition os_path_spec :: path_spec where
  "os_path_spec = PathSpec ''OS'' [(''location'', PyStr ''/image.dmg'')] None"

definition fvde_path_spec :: path_spec where
  "fvde_path_spec =
     PathSpec TYPE_INDICATOR_FVDE [(''password'', PyStr ''pw'')] (Some os_path_spec)"

definition table_path_spec :: path_spec where
  "table_path_spec =
     PathSpec TYPE_INDICATOR_SQLITE_BLOB
       [(''table_name'', PyStr ''blobs''), (''column_name'', PyStr ''data'')]
       (Some os_path_spec)"

definition row_path_spec :: "int \<Rightarrow> path_spec" where
  "row_path_spec i =
     PathSpec TYPE_INDICATOR_SQLITE_BLOB
       [(''table_name'', PyStr ''blobs''), (''column_name'', PyStr ''data''),
        (''row_index'', PyInt i)]
       (Some os_path_spec)"

definition world0 :: world where
  "world0 = \<lparr>key_chain = [], trace = []\<rparr>"

definition env_unlocks :: env where
  "env_unlocks =
     \<lparr>env_OpenFileObject = (\<lambda>w s ctx. (Inr 7, key_chain w)),
      env_ExtractCredentialsFromPathSpec =
        (\<lambda>w s. Inr (PyNone, (s, [(''password'', getattr s ''password'' PyNone)]) # key_chain w)),
      env_FVDEVolumeOpen = (\<lambda>w v s fo kc. Inr (FVDEVolume (Some fo))),
      env_GetNumberOfRows = (\<lambda>w fo. Inr 42)\<rparr>"

definition env_locked :: env where
  "env_locked = env_unlocks\<lparr>env_FVDEVolumeOpen := (\<lambda>w v s fo kc. Inl AccessError)\<rparr>"

definition env_raising :: "exn \<Rightarrow> env" where
  "env_raising e = env_unlocks\<lparr>env_OpenFileObject := (\<lambda>w s ctx. (Inl e, key_chain w))\<rparr>"

text \<open>
  An environment whose \<open>ExtractCredentialsFromPathSpec\<close> returns a value and leaves the
  key chain as it found it.
\<close>

definition env_secret :: env where
  "env_secret =
     env_unlocks\<lparr>env_ExtractCredentialsFromPathSpec :=
                  (\<lambda>w s. Inr (PyStr ''secret'', key_chain w))\<rparr>"

text \<open>
  An environment in which the parent of the volume is itself behind a credential: the
  resolver, opening it, puts that credential into the key chain.
\<close>

definition env_nested :: env where
  "env_nested =
     env_unlocks\<lparr>env_OpenFileObject :=
                  (\<lambda>w s ctx. (Inr 7, key_chain w @ [(s, [(''password'', PyStr ''outer'')])]))\<rparr>"

text \<open>The two backends, opened on the volume and on a row of the table.\<close>

definition fvde_opened :: fvde_file_system where
  "fvde_opened =
     fst (snd (FileSystem_Open (FVDEFileSystem__Open env_unlocks) (FVDEFileSystem_init 0)
                 fvde_path_spec world0))"

definition table_opened :: sqlite_blob_file_system where
  "table_opened =
     fst (snd (FileSystem_Open (SQLiteBlobFileSystem__Open env_unlocks)
                 (SQLiteBlobFileSystem_init 0) (row_path_spec 5) world0))"

definition world_opened :: world where
  "world_opened =
     snd (snd (FileSystem_Open (SQLiteBlobFileSystem__Open env_unlocks)
                 (SQLiteBlobFileSystem_init 0) (row_path_spec 5) world0))"

text \<open>The table backend and the world after its first row count, asked for through row 1.\<close>

definition table_counted :: sqlite_blob_file_system where
  "table_counted =
     fst (snd (SQLiteBlobFileSystem_GetNumberOfRows env_unlocks table_opened (row_path_spec 1)
                 world_opened))"

definition world_counted :: world where
  "world_counted =
     snd (snd (SQLiteBlobFileSystem_GetNumberOfRows env_unlocks table_opened (row_path_spec 1)
                 world_opened))"

section \<open>The existence test\<close>

text \<open>
  C1. For every path specification, \<open>FileEntryExistsByPathSpec\<close> returns false exactly
  when the attempt to open it raises one of the four error kinds (\<open>PathSpecError\<close>,
  \<open>AccessError\<close>, \<open>IOError\<close>, \<open>ValueError\<close>), returns true exactly when the open
  succeeds, and lets an exception of any other kind propagate to the caller unchanged.
\<close>

theorem FileEntryExistsByPathSpec_result:
  fixes E self path_spec w
  defines "opened \<equiv> fst (env_OpenFileObject E w path_spec (fs_resolver_context self))"
  defines "result \<equiv> fst (SQLiteBlobFileSystem_FileEntryExistsByPathSpec E self path_spec w)"
  shows "(result = Inr False \<longleftrightarrow>
            opened \<in> {Inl PathSpecError, Inl AccessError, Inl IOError, Inl ValueError})
       \<and> (result = Inr True \<longleftrightarrow> (\<exists>file_object. opened = Inr file_object))
       \<and> (\<forall>e. opened = Inl e \<and> e \<notin> {PathSpecError, AccessError, IOError, ValueError}
              \<longrightarrow> result = Inl e)"
  unfolding opened_def result_def
  by (cases "env_OpenFileObject E w path_spec (fs_resolver_context self)";
      cases "fst (env_OpenFileObject E w path_spec (fs_resolver_context self))")
     (auto simp: SQLiteBlobFileSystem_FileEntryExistsByPathSpec_def OpenFileObject_def caught_def)

text \<open>
  The three outcomes at a row of the table: the resolver raises \<open>IOError\<close>, the resolver
  returns a file object, the resolver raises \<open>KeyError\<close>.
\<close>

theorem FileEntryExistsByPathSpec_result_witness:
  "fst (SQLiteBlobFileSystem_FileEntryExistsByPathSpec (env_raising IOError)
          (SQLiteBlobFileSystem_init 0) (row_path_spec 3) world0) = Inr False
   \<and> fst (SQLiteBlobFileSystem_FileEntryExistsByPathSpec env_unlocks
          (SQLiteBlobFileSystem_init 0) (row_path_spec 3) world0) = Inr True
   \<and> fst (SQLiteBlobFileSystem_FileEntryExistsByPathSpec (env_raising (OtherError ''KeyError''))
          (SQLiteBlobFileSystem_init 0) (row_path_spec 3) world0) = Inl (OtherError ''KeyError'')"
proof -
  let ?fs = "SQLiteBlobFileSystem_init 0"
  have a: "fst (env_OpenFileObject (env_raising IOError) world0 (row_path_spec 3)
             (fs_resolver_context ?fs)) = Inl IOError"
    by (simp add: env_raising_def env_unlocks_def)
  have b: "fst (env_OpenFileObject env_unlocks world0 (row_path_spec 3)
             (fs_resolver_context ?fs)) = Inr 7"
    by (simp add: env_unlocks_def)
  have c: "fst (env_OpenFileObject (env_raising (OtherError ''KeyError'')) world0
             (row_path_spec 3) (fs_resolver_context ?fs)) = Inl (OtherError ''KeyError'')"
    by (simp add: env_raising_def env_unlocks_def)
  from FileEntryExistsByPathSpec_result [of "env_raising IOError" ?fs "row_path_spec 3" world0] a
  have 1: "fst (SQLiteBlobFileSystem_FileEntryExistsByPathSpec (env_raising IOError)
          ?fs (row_path_spec 3) world0) = Inr False"
    by simp
  from FileEntryExistsByPathSpec_result [of env_unlocks ?fs "row_path_spec 3" world0] b
  have 2: "fst (SQLiteBlobFileSystem_FileEntryExistsByPathSpec env_unlocks
          ?fs (row_path_spec 3) world0) = Inr True"
    by simp
  from FileEntryExistsByPathSpec_result
         [of "env_raising (OtherError ''KeyError'')" ?fs "row_path_spec 3" world0] c
  have 3: "fst (SQLiteBlobFileSystem_FileEntryExistsByPathSpec
          (env_raising (OtherError ''KeyError'')) ?fs (row_path_spec 3) world0)
          = Inl (OtherError ''KeyError'')"
    by simp
  from 1 2 3 show ?thesis by simp
qed

section \<open>Opening a backend\<close>

text \<open>
  C5. For every path specification without a parent, both \<open>FVDEFileSystem._Open\<close> and
  \<open>SQLiteBlobFileSystem._Open\<close> fail with \<open>PathSpecError\<close> before acquiring anything:
  the instance is returned as it was, and the world too, so no collaborator was called
  (no credentials extracted, no parent file object opened).
\<close>

theorem Open_without_parent:
  assumes "\<not> HasParent path_spec"
  shows "FVDEFileSystem__Open E fvde_self path_spec w = (Inl PathSpecError, fvde_self, w)
       \<and> SQLiteBlobFileSystem__Open E sqlite_self path_spec w
           = (Inl PathSpecError, sqlite_self, w)"
  using assms by (simp add: FVDEFileSystem__Open_def SQLiteBlobFileSystem__Open_def)

theorem Open_without_parent_witness:
  "\<not> HasParent os_path_spec
   \<and> FVDEFileSystem__Open env_unlocks (FVDEFileSystem_init 0) os_path_spec world0
       = (Inl PathSpecError, FVDEFileSystem_init 0, world0)
   \<and> SQLiteBlobFileSystem__Open env_unlocks (SQLiteBlobFileSystem_init 0) os_path_spec world0
       = (Inl PathSpecError, SQLiteBlobFileSystem_init 0, world0)
   \<and> trace world0 = []"
proof -
  have h: "\<not> HasParent os_path_spec"
    by (simp add: HasParent_def os_path_spec_def)
  from Open_without_parent [OF h] h show ?thesis
    by (simp add: world0_def)
qed

text \<open>
  C2. For every call of \<open>FVDEFileSystem._Open\<close> in which the parent file object has
  been opened and the unlock of the volume then raises an exception, that exception is
  what the call raises, the instance is left as it was (neither \<open>_fvde_volume\<close> nor
  \<open>_file_object\<close> is assigned), and the last thing the call did before the exception
  left it was to close the parent file object.
\<close>

theorem FVDE_Open_unlock_failure:
  assumes "parent path_spec = Some parent_spec"
    and "ExtractCredentialsFromPathSpec E path_spec w = (Inr r, w1)"
    and "OpenFileObject E parent_spec (fs_resolver_context self) w1 = (Inr file_object, w2)"
    and "FVDEVolumeOpen E pyfvde_volume path_spec file_object (key_chain w2) w2 = (Inl e, w3)"
  shows "FVDEFileSystem__Open E self path_spec w = (Inl e, self, close file_object w3)
       \<and> calls_since w (close file_object w3) =
           [ExtractCredentialsFromPathSpec_call path_spec,
            OpenFileObject_call parent_spec (fs_resolver_context self),
            FVDEVolumeOpen_call pyfvde_volume path_spec file_object (key_chain w2),
            close_call file_object]"
proof -
  from assms(1) have hp: "HasParent path_spec"
    by (simp add: HasParent_def)
  from assms have r:
    "FVDEFileSystem__Open E self path_spec w = (Inl e, self, close file_object w3)"
    by (simp add: FVDEFileSystem__Open_def hp)
  from assms(2) have t1: "trace w1 = trace w @ [ExtractCredentialsFromPathSpec_call path_spec]"
    by (auto simp: ExtractCredentialsFromPathSpec_def record_call_def Let_def split: sum.splits)
  from assms(3) have t2:
    "trace w2 = trace w1 @ [OpenFileObject_call parent_spec (fs_resolver_context self)]"
    by (auto simp: OpenFileObject_def record_call_def split: prod.splits)
  from assms(4) have t3:
    "trace w3 = trace w2 @
       [FVDEVolumeOpen_call pyfvde_volume path_spec file_object (key_chain w2)]"
    by (auto simp: FVDEVolumeOpen_def record_call_def)
  from t1 t2 t3 have "calls_since w (close file_object w3) =
           [ExtractCredentialsFromPathSpec_call path_spec,
            OpenFileObject_call parent_spec (fs_resolver_context self),
            FVDEVolumeOpen_call pyfvde_volume path_spec file_object (key_chain w2),
            close_call file_object]"
    by (simp add: calls_since_def close_def record_call_def)
  with r show ?thesis by simp
qed

text \<open>The volume that stays locked: \<open>AccessError\<close> leaves \<open>_Open\<close> after \<open>close\<close>.\<close>

theorem FVDE_Open_unlock_failure_witness:
  "FVDEFileSystem__Open env_locked (FVDEFileSystem_init 0) fvde_path_spec world0 =
     (Inl AccessError, FVDEFileSystem_init 0,
      \<lparr>key_chain = [(fvde_path_spec, [(''password'', PyStr ''pw'')])],
        trace = [ExtractCredentialsFromPathSpec_call fvde_path_spec,
                 OpenFileObject_call os_path_spec 0,
                 FVDEVolumeOpen_call pyfvde_volume fvde_path_spec 7
                   [(fvde_path_spec, [(''password'', PyStr ''pw'')])],
                 close_call 7]\<rparr>)"
proof -
  let ?kc = "[(fvde_path_spec, [(''password'', PyStr ''pw'')])]"
  let ?w1 = "\<lparr>key_chain = ?kc, trace = [ExtractCredentialsFromPathSpec_call fvde_path_spec]\<rparr>"
  let ?w2 = "\<lparr>key_chain = ?kc, trace = [ExtractCredentialsFromPathSpec_call fvde_path_spec,
                 OpenFileObject_call os_path_spec 0]\<rparr>"
  let ?w3 = "\<lparr>key_chain = ?kc, trace = [ExtractCredentialsFromPathSpec_call fvde_path_spec,
                 OpenFileObject_call os_path_spec 0,
                 FVDEVolumeOpen_call pyfvde_volume fvde_path_spec 7 ?kc]\<rparr>"
  have a: "parent fvde_path_spec = Some os_path_spec"
    by (simp add: fvde_path_spec_def)
  have b: "ExtractCredentialsFromPathSpec env_locked fvde_path_spec world0 = (Inr PyNone, ?w1)"
    by (simp add: ExtractCredentialsFromPathSpec_def env_locked_def env_unlocks_def world0_def
          record_call_def getattr_def fvde_path_spec_def)
  have c: "OpenFileObject env_locked os_path_spec
             (fs_resolver_context (FVDEFileSystem_init 0)) ?w1 = (Inr 7, ?w2)"
    by (simp add: OpenFileObject_def env_locked_def env_unlocks_def record_call_def
          FVDEFileSystem_init_def FileSystem_init_def file_system.defs)
  have d: "FVDEVolumeOpen env_locked pyfvde_volume fvde_path_spec 7 (key_chain ?w2) ?w2
             = (Inl AccessError, ?w3)"
    by (simp add: FVDEVolumeOpen_def env_locked_def env_unlocks_def record_call_def)
  from FVDE_Open_unlock_failure [OF a b c d] show ?thesis
    by (simp add: close_def record_call_def)
qed

subsection \<open>Credentials\<close>

text \<open>
  The value that \<open>ExtractCredentialsFromPathSpec\<close> returns is an expression statement
  of \<open>_Open\<close>: nothing reads it.
\<close>

lemma ExtractCredentials_returning:
  "ExtractCredentialsFromPathSpec (returning r' E) path_spec w =
     (case ExtractCredentialsFromPathSpec E path_spec w of
        (Inl e, w1) \<Rightarrow> (Inl e, w1)
      | (Inr r, w1) \<Rightarrow> (Inr r', w1))"
  by (simp add: ExtractCredentialsFromPathSpec_def returning_def Let_def
        split: sum.splits prod.splits)

lemma FVDE_Open_returning:
  "FVDEFileSystem__Open (returning r' E) self path_spec w
     = FVDEFileSystem__Open E self path_spec w"
proof -
  have o: "\<And>p c w. OpenFileObject (returning r' E) p c w = OpenFileObject E p c w"
    by (simp add: OpenFileObject_def returning_def)
  have v: "\<And>a b c d w. FVDEVolumeOpen (returning r' E) a b c d w = FVDEVolumeOpen E a b c d w"
    by (simp add: FVDEVolumeOpen_def returning_def)
  show ?thesis
    by (simp add: FVDEFileSystem__Open_def ExtractCredentials_returning o v
          split: prod.splits sum.splits)
qed

text \<open>
  C8, as the claim states it, fails: the result of \<open>ExtractCredentialsFromPathSpec\<close> is
  not passed on. Here the call returns the string \<open>secret\<close> and leaves the key chain
  empty; the unlock is then attempted with the new volume, the path specification, the
  parent file object and the empty key chain, and \<open>_Open\<close> runs the same when the call
  returns \<open>None\<close> instead.
\<close>

theorem FVDE_Open_result_of_extract_counterexample:
  "fst (ExtractCredentialsFromPathSpec env_secret fvde_path_spec world0) = Inr (PyStr ''secret'')
   \<and> calls_since world0
        (snd (snd (FVDEFileSystem__Open env_secret (FVDEFileSystem_init 0) fvde_path_spec
                     world0)))
      = [ExtractCredentialsFromPathSpec_call fvde_path_spec,
         OpenFileObject_call os_path_spec 0,
         FVDEVolumeOpen_call pyfvde_volume fvde_path_spec 7 []]
   \<and> FVDEFileSystem__Open (returning PyNone env_secret) (FVDEFileSystem_init 0)
        fvde_path_spec world0
      = FVDEFileSystem__Open env_secret (FVDEFileSystem_init 0) fvde_path_spec world0"
  by (simp add: ExtractCredentialsFromPathSpec_def env_secret_def env_unlocks_def world0_def
        record_call_def FVDEFileSystem__Open_def HasParent_def fvde_path_spec_def
        OpenFileObject_def FVDEVolumeOpen_def calls_since_def returning_def
        FVDEFileSystem_init_def FileSystem_init_def file_system.defs)

text \<open>
  C8, amended. In every execution of \<open>FVDEFileSystem._Open\<close> that attempts the unlock
  of the volume, \<open>_Open\<close> itself has first called
  \<open>ExtractCredentialsFromPathSpec(path_spec)\<close> on the key chain of the resolver, that
  call returned, and the parent was then opened. The value the call returned is
  discarded, so \<open>_Open\<close> runs the same whatever it is; what is passed into the unlock
  is the key chain of the resolver, read again after the parent was opened: the key
  chain the call left, as the opening of the parent may have changed it further.
\<close>

theorem FVDE_Open_extracts_before_unlock:
  assumes "FVDEFileSystem__Open E self path_spec w = (result, self1, w1)"
    and "FVDEVolumeOpen_call v s file_object kc \<in> set (calls_since w w1)"
  shows "(\<exists>r extracted parent_spec opened later.
            ExtractCredentialsFromPathSpec E path_spec w = (Inr r, extracted)
          \<and> env_ExtractCredentialsFromPathSpec E w path_spec = Inr (r, key_chain extracted)
          \<and> parent path_spec = Some parent_spec
          \<and> OpenFileObject E parent_spec (fs_resolver_context self) extracted
              = (Inr file_object, opened)
          \<and> kc = key_chain opened
          \<and> calls_since w w1 =
              [ExtractCredentialsFromPathSpec_call path_spec,
               OpenFileObject_call parent_spec (fs_resolver_context self),
               FVDEVolumeOpen_call pyfvde_volume path_spec file_object kc] @ later
          \<and> v = pyfvde_volume \<and> s = path_spec)
       \<and> FVDEFileSystem__Open (returning r' E) self path_spec w = (result, self1, w1)"
proof
  show "FVDEFileSystem__Open (returning r' E) self path_spec w = (result, self1, w1)"
    using assms(1) by (simp add: FVDE_Open_returning)
next
  from assms obtain parent_spec where par: "parent path_spec = Some parent_spec"
    by (auto simp: FVDEFileSystem__Open_def HasParent_def calls_since_def split: if_splits)
  then have hp: "HasParent path_spec"
    by (simp add: HasParent_def)
  obtain x extracted where ex: "ExtractCredentialsFromPathSpec E path_spec w = (x, extracted)"
    by (cases "ExtractCredentialsFromPathSpec E path_spec w")
  have t1: "trace extracted = trace w @ [ExtractCredentialsFromPathSpec_call path_spec]"
    using ex
    by (auto simp: ExtractCredentialsFromPathSpec_def record_call_def Let_def split: sum.splits)
  obtain y opened where
    op: "OpenFileObject E parent_spec (fs_resolver_context self) extracted = (y, opened)"
    by (cases "OpenFileObject E parent_spec (fs_resolver_context self) extracted")
  have t2: "trace opened =
      trace extracted @ [OpenFileObject_call parent_spec (fs_resolver_context self)]"
    using op by (auto simp: OpenFileObject_def record_call_def split: prod.splits)
  from assms ex par hp t1 obtain r where r: "x = Inr r"
    by (cases x) (auto simp: FVDEFileSystem__Open_def calls_since_def)
  from assms ex par hp t1 t2 op r obtain fo where fo: "y = Inr fo"
    by (cases y) (auto simp: FVDEFileSystem__Open_def calls_since_def)
  obtain z unlocked where
    un: "FVDEVolumeOpen E pyfvde_volume path_spec fo (key_chain opened) opened = (z, unlocked)"
    by (cases "FVDEVolumeOpen E pyfvde_volume path_spec fo (key_chain opened) opened")
  have t3: "trace unlocked =
      trace opened @ [FVDEVolumeOpen_call pyfvde_volume path_spec fo (key_chain opened)]"
    using un by (auto simp: FVDEVolumeOpen_def record_call_def)
  have w1: "trace w1 = trace unlocked \<or> trace w1 = trace unlocked @ [close_call fo]"
    using assms(1) ex par hp op r fo un
    by (cases z) (auto simp: FVDEFileSystem__Open_def close_def record_call_def)
  then obtain later where
    calls: "calls_since w w1 =
       [ExtractCredentialsFromPathSpec_call path_spec,
        OpenFileObject_call parent_spec (fs_resolver_context self),
        FVDEVolumeOpen_call pyfvde_volume path_spec fo (key_chain opened)] @ later"
      and later: "later = [] \<or> later = [close_call fo]"
    using t1 t2 t3 by (auto simp: calls_since_def)
  from assms(2) calls later
  have same: "v = pyfvde_volume \<and> s = path_spec \<and> file_object = fo \<and> kc = key_chain opened"
    by auto
  have kc: "env_ExtractCredentialsFromPathSpec E w path_spec = Inr (r, key_chain extracted)"
    using ex r
    by (auto simp: ExtractCredentialsFromPathSpec_def Let_def split: sum.splits)
  from ex r par op fo same calls kc
  show "\<exists>r extracted parent_spec opened later.
            ExtractCredentialsFromPathSpec E path_spec w = (Inr r, extracted)
          \<and> env_ExtractCredentialsFromPathSpec E w path_spec = Inr (r, key_chain extracted)
          \<and> parent path_spec = Some parent_spec
          \<and> OpenFileObject E parent_spec (fs_resolver_context self) extracted
              = (Inr file_object, opened)
          \<and> kc = key_chain opened
          \<and> calls_since w w1 =
              [ExtractCredentialsFromPathSpec_call path_spec,
               OpenFileObject_call parent_spec (fs_resolver_context self),
               FVDEVolumeOpen_call pyfvde_volume path_spec file_object kc] @ later
          \<and> v = pyfvde_volume \<and> s = path_spec"
    by blast
qed

text \<open>
  The volume whose parent is behind a credential of its own: the unlock is attempted
  with the credential that the extraction put into the key chain and the one that the
  opening of the parent added after it.
\<close>

theorem FVDE_Open_extracts_before_unlock_witness:
  "FVDEVolumeOpen_call pyfvde_volume fvde_path_spec 7
       [(fvde_path_spec, [(''password'', PyStr ''pw'')]),
        (os_path_spec, [(''password'', PyStr ''outer'')])]
     \<in> set (calls_since world0
              (snd (snd (FVDEFileSystem__Open env_nested (FVDEFileSystem_init 0)
                           fvde_path_spec world0))))
   \<and> (\<exists>r extracted opened later.
         env_ExtractCredentialsFromPathSpec env_nested world0 fvde_path_spec
           = Inr (r, key_chain extracted)
       \<and> key_chain extracted = [(fvde_path_spec, [(''password'', PyStr ''pw'')])]
       \<and> OpenFileObject env_nested os_path_spec 0 extracted = (Inr 7, opened)
       \<and> key_chain opened = [(fvde_path_spec, [(''password'', PyStr ''pw'')]),
                             (os_path_spec, [(''password'', PyStr ''outer'')])]
       \<and> calls_since world0
              (snd (snd (FVDEFileSystem__Open env_nested (FVDEFileSystem_init 0)
                           fvde_path_spec world0)))
         = [ExtractCredentialsFromPathSpec_call fvde_path_spec,
            OpenFileObject_call os_path_spec 0,
            FVDEVolumeOpen_call pyfvde_volume fvde_path_spec 7
              [(fvde_path_spec, [(''password'', PyStr ''pw'')]),
               (os_path_spec, [(''password'', PyStr ''outer'')])]] @ later)"
proof -
  let ?run = "FVDEFileSystem__Open env_nested (FVDEFileSystem_init 0) fvde_path_spec world0"
  let ?kc = "[(fvde_path_spec, [(''password'', PyStr ''pw'')]),
              (os_path_spec, [(''password'', PyStr ''outer'')])]"
  have run: "?run = (fst ?run, fst (snd ?run), snd (snd ?run))"
    by simp
  have ev: "FVDEVolumeOpen_call pyfvde_volume fvde_path_spec 7 ?kc
              \<in> set (calls_since world0 (snd (snd ?run)))"
    by (simp add: FVDEFileSystem__Open_def HasParent_def ExtractCredentialsFromPathSpec_def
          OpenFileObject_def FVDEVolumeOpen_def env_nested_def env_unlocks_def world0_def
          record_call_def calls_since_def getattr_def fvde_path_spec_def)
  have ctx: "fs_resolver_context (FVDEFileSystem_init 0) = 0"
    by (simp add: FVDEFileSystem_init_def FileSystem_init_def file_system.defs)
  have par: "parent fvde_path_spec = Some os_path_spec"
    by (simp add: fvde_path_spec_def)
  have ext: "env_ExtractCredentialsFromPathSpec env_nested world0 fvde_path_spec
               = Inr (PyNone, [(fvde_path_spec, [(''password'', PyStr ''pw'')])])"
    by (simp add: env_nested_def env_unlocks_def world0_def getattr_def fvde_path_spec_def)
  from FVDE_Open_extracts_before_unlock [OF run ev, of PyNone] ev ctx par ext show ?thesis
    by (auto simp del: append.simps)
qed

section \<open>Constructing a fake path specification\<close>

text \<open>
  C4, as the claim states it, fails: a \<open>FakePathSpec\<close> constructed with a parent fails
  with \<open>ValueError\<close>, which is not the structural error \<open>PathSpecError\<close>.
\<close>

theorem FakePathSpec_parent_counterexample:
  "FakePathSpec_init (PyStr ''/opt/dfvfs'')
     \<lparr>kw_parent = Some (Some os_path_spec), kw_others = []\<rparr> = Inl ValueError
   \<and> FakePathSpec_init (PyStr ''/opt/dfvfs'')
     \<lparr>kw_parent = Some (Some os_path_spec), kw_others = []\<rparr> \<noteq> Inl PathSpecError"
  by (simp add: FakePathSpec_init_def truthy_def)

text \<open>
  C4, amended. Constructing a \<open>FakePathSpec\<close> with a parent supplied fails with
  \<open>ValueError\<close>; constructing it without a parent (no \<open>parent\<close> keyword, or
  \<open>parent=None\<close>) succeeds, and \<open>HasParent()\<close> of the resulting path specification is
  false.
\<close>

theorem FakePathSpec_parent:
  "(kw_parent kwargs = Some (Some p) \<longrightarrow> FakePathSpec_init location kwargs = Inl ValueError)
   \<and> (kw_parent kwargs \<in> {None, Some None} \<longrightarrow>
        (\<exists>path_spec. FakePathSpec_init location kwargs = Inr path_spec
             \<and> \<not> HasParent path_spec
             \<and> type_indicator path_spec = TYPE_INDICATOR_FAKE))"
  by (auto simp: FakePathSpec_init_def truthy_def LocationPathSpec_init_def HasParent_def)

theorem FakePathSpec_parent_witness:
  "FakePathSpec_init (PyStr ''/opt/dfvfs'')
     \<lparr>kw_parent = Some (Some os_path_spec), kw_others = []\<rparr> = Inl ValueError
   \<and> (\<exists>path_spec. FakePathSpec_init (PyStr ''/opt/dfvfs'')
          \<lparr>kw_parent = None, kw_others = []\<rparr> = Inr path_spec \<and> \<not> HasParent path_spec)"
  using FakePathSpec_parent [of "\<lparr>kw_parent = Some (Some os_path_spec), kw_others = []\<rparr>"
                              os_path_spec "PyStr ''/opt/dfvfs''"]
        FakePathSpec_parent [of "\<lparr>kw_parent = None, kw_others = []\<rparr>"
                              os_path_spec "PyStr ''/opt/dfvfs''"]
  by auto

section \<open>Entries of the table\<close>

text \<open>
  C10. \<open>SQLiteBlobFileSystem.GetFileEntryByPathSpec\<close> tests the two attributes with
  \<open>is None\<close>, not for truth: a path specification whose \<open>row_index\<close> is 0 gets an entry
  that is neither root nor virtual, and the entry is the root (and virtual) exactly when
  each of \<open>row_index\<close> and \<open>row_condition\<close> is absent or \<open>None\<close>.
\<close>

theorem GetFileEntryByPathSpec_is_None_test:
  fixes self path_spec
  defines "entry \<equiv> SQLiteBlobFileSystem_GetFileEntryByPathSpec self path_spec"
  defines "row_index \<equiv> map_of (attributes path_spec) ''row_index''"
  defines "row_condition \<equiv> map_of (attributes path_spec) ''row_condition''"
  shows "(row_index = Some (PyInt 0) \<longrightarrow> \<not> is_root entry \<and> \<not> is_virtual entry)
       \<and> (is_root entry \<longleftrightarrow>
            row_index \<in> {None, Some PyNone} \<and> row_condition \<in> {None, Some PyNone})
       \<and> (is_virtual entry \<longleftrightarrow> is_root entry)"
  unfolding entry_def row_index_def row_condition_def
  by (auto simp: SQLiteBlobFileSystem_GetFileEntryByPathSpec_def SQLiteBlobFileEntry_def
        is_root_default_def is_virtual_default_def
        getattr_def Let_def split: option.splits)

theorem GetFileEntryByPathSpec_is_None_test_witness:
  "map_of (attributes (row_path_spec 0)) ''row_index'' = Some (PyInt 0)
   \<and> \<not> is_root (SQLiteBlobFileSystem_GetFileEntryByPathSpec (SQLiteBlobFileSystem_init 0)
                  (row_path_spec 0))
   \<and> \<not> is_virtual (SQLiteBlobFileSystem_GetFileEntryByPathSpec (SQLiteBlobFileSystem_init 0)
                  (row_path_spec 0))"
proof -
  have h: "map_of (attributes (row_path_spec 0)) ''row_index'' = Some (PyInt 0)"
    by (simp add: row_path_spec_def)
  from GetFileEntryByPathSpec_is_None_test [of "row_path_spec 0" "SQLiteBlobFileSystem_init 0"] h
  show ?thesis by simp
qed




section \<open>The root entry\<close>

text \<open>
  C6, as the claim states it, fails: two path specifications whose parent is the parent
  of the defining path specification of the opened volume, one carrying nothing and one
  carrying a recovery password, do not get the same entry.
\<close>

theorem FVDE_GetFileEntryByPathSpec_same_entry_counterexample:
  "fs_path_spec fvde_opened = Some fvde_path_spec
   \<and> parent (PathSpec TYPE_INDICATOR_FVDE [] (Some os_path_spec)) = parent fvde_path_spec
   \<and> parent (PathSpec TYPE_INDICATOR_FVDE [(''recovery_password'', PyStr ''r'')]
               (Some os_path_spec)) = parent fvde_path_spec
   \<and> FVDEFileSystem_GetFileEntryByPathSpec fvde_opened
         (PathSpec TYPE_INDICATOR_FVDE [] (Some os_path_spec))
       \<noteq> FVDEFileSystem_GetFileEntryByPathSpec fvde_opened
           (PathSpec TYPE_INDICATOR_FVDE [(''recovery_password'', PyStr ''r'')]
              (Some os_path_spec))"
  by (simp add: fvde_opened_def FileSystem_Open_def FVDEFileSystem__Open_def HasParent_def
        fvde_path_spec_def ExtractCredentialsFromPathSpec_def OpenFileObject_def
        FVDEVolumeOpen_def env_unlocks_def Let_def
        FVDEFileSystem_GetFileEntryByPathSpec_def FVDEFileEntry_def)

text \<open>
  C6, amended. For every path specification, whether or not its parent chain matches
  the defining chain of the file system, \<open>FVDEFileSystem.GetFileEntryByPathSpec\<close>
  returns a new entry of the volume backend, marked root and virtual, that keeps the
  path specification it was made for. The entries for two path specifications are equal
  in everything but that path specification, and so are the same entry exactly when
  the two path specifications are equal.
\<close>

theorem FVDE_GetFileEntryByPathSpec_root_only:
  fixes self s1 s2
  defines "e1 \<equiv> FVDEFileSystem_GetFileEntryByPathSpec self s1"
  defines "e2 \<equiv> FVDEFileSystem_GetFileEntryByPathSpec self s2"
  shows "is_root e1 \<and> is_virtual e1 \<and> is_root e2 \<and> is_virtual e2
       \<and> fe_type_indicator e1 = TYPE_INDICATOR_FVDE
       \<and> fe_resolver_context e1 = fs_resolver_context self
       \<and> fe_path_spec e1 = s1 \<and> fe_path_spec e2 = s2
       \<and> e2 = e1\<lparr>fe_path_spec := s2\<rparr>
       \<and> (e1 = e2 \<longleftrightarrow> s1 = s2)"
  unfolding e1_def e2_def
  by (auto simp: FVDEFileSystem_GetFileEntryByPathSpec_def FVDEFileEntry_def)

text \<open>
  The opened volume, asked with a path specification that carries nothing and with one
  that carries a recovery password.
\<close>

theorem FVDE_GetFileEntryByPathSpec_root_only_witness:
  "is_root (FVDEFileSystem_GetFileEntryByPathSpec fvde_opened
               (PathSpec TYPE_INDICATOR_FVDE [] (Some os_path_spec)))
   \<and> is_virtual (FVDEFileSystem_GetFileEntryByPathSpec fvde_opened
               (PathSpec TYPE_INDICATOR_FVDE [] (Some os_path_spec)))
   \<and> is_root (FVDEFileSystem_GetFileEntryByPathSpec fvde_opened
               (PathSpec TYPE_INDICATOR_FVDE [(''recovery_password'', PyStr ''r'')]
                  (Some os_path_spec)))
   \<and> is_virtual (FVDEFileSystem_GetFileEntryByPathSpec fvde_opened
               (PathSpec TYPE_INDICATOR_FVDE [(''recovery_password'', PyStr ''r'')]
                  (Some os_path_spec)))
   \<and> fe_path_spec (FVDEFileSystem_GetFileEntryByPathSpec fvde_opened
               (PathSpec TYPE_INDICATOR_FVDE [(''recovery_password'', PyStr ''r'')]
                  (Some os_path_spec)))
       = PathSpec TYPE_INDICATOR_FVDE [(''recovery_password'', PyStr ''r'')] (Some os_path_spec)"
  using FVDE_GetFileEntryByPathSpec_root_only
          [of fvde_opened "PathSpec TYPE_INDICATOR_FVDE [] (Some os_path_spec)"
              "PathSpec TYPE_INDICATOR_FVDE [(''recovery_password'', PyStr ''r'')]
                 (Some os_path_spec)"]
  by simp

text \<open>
  A backend that \<open>Open\<close> has opened is bound to its defining path specification, and
  that path specification has a parent.
\<close>

lemma SQLite_Open_HasParent:
  "FileSystem_Open (SQLiteBlobFileSystem__Open E) self0 defining w = (Inr u, self, w')
   \<Longrightarrow> HasParent defining \<and> fs_path_spec self = Some defining
       \<and> fs_resolver_context self = fs_resolver_context self0"
  by (auto simp: FileSystem_Open_def SQLiteBlobFileSystem__Open_def
        split: if_splits prod.splits sum.splits)

lemma FVDE_Open_HasParent:
  "FileSystem_Open (FVDEFileSystem__Open E) self0 defining w = (Inr u, self, w')
   \<Longrightarrow> HasParent defining \<and> fs_path_spec self = Some defining
       \<and> fs_resolver_context self = fs_resolver_context self0"
  by (auto simp: FileSystem_Open_def FVDEFileSystem__Open_def Let_def
        split: if_splits prod.splits sum.splits)

text \<open>
  C9. For every open file system, \<open>GetRootFileEntry\<close> returns an entry marked both
  virtual and root, whose path specification is newly made from the defining one. For
  \<open>SQLiteBlobFileSystem\<close> (defined by a path specification that has a table name and a
  column name) it is what \<open>SQLiteBlobPathSpec\<close> makes of that table name, that column
  name and that parent: it has these and nothing else, so neither a row index nor a row
  condition. For \<open>FVDEFileSystem\<close> it is what \<open>FVDEPathSpec\<close> makes of that parent:
  it has that parent and none of the attributes of the defining path specification.
\<close>

theorem GetRootFileEntry_of_open_file_system:
  "(FileSystem_Open (SQLiteBlobFileSystem__Open E) sqlite_self0 defining w
       = (Inr (), sqlite_self, w')
    \<and> attribute defining ''table_name'' = Inr table_name
    \<and> attribute defining ''column_name'' = Inr column_name
    \<longrightarrow> (\<exists>entry. SQLiteBlobFileSystem_GetRootFileEntry sqlite_self = Inr entry
           \<and> is_root entry \<and> is_virtual entry
           \<and> fe_type_indicator entry = TYPE_INDICATOR_SQLITE_BLOB
           \<and> fe_resolver_context entry = fs_resolver_context sqlite_self0
           \<and> SQLiteBlobPathSpec table_name column_name PyNone PyNone (parent defining)
               = Inr (fe_path_spec entry)
           \<and> fe_path_spec entry
               = PathSpec TYPE_INDICATOR_SQLITE_BLOB
                   [(''table_name'', table_name), (''column_name'', column_name)]
                   (parent defining)
           \<and> attribute (fe_path_spec entry) ''table_name'' = Inr table_name
           \<and> attribute (fe_path_spec entry) ''column_name'' = Inr column_name
           \<and> parent (fe_path_spec entry) = parent defining
           \<and> map_of (attributes (fe_path_spec entry)) ''row_index'' = None
           \<and> map_of (attributes (fe_path_spec entry)) ''row_condition'' = None))
   \<and> (FileSystem_Open (FVDEFileSystem__Open E) fvde_self0 defining w
       = (Inr (), fvde_self, w')
    \<longrightarrow> (\<exists>entry. FVDEFileSystem_GetRootFileEntry fvde_self = Inr entry
           \<and> is_root entry \<and> is_virtual entry
           \<and> fe_type_indicator entry = TYPE_INDICATOR_FVDE
           \<and> fe_resolver_context entry = fs_resolver_context fvde_self0
           \<and> FVDEPathSpec (parent defining) = Inr (fe_path_spec entry)
           \<and> fe_path_spec entry = PathSpec TYPE_INDICATOR_FVDE [] (parent defining)
           \<and> parent (fe_path_spec entry) = parent defining))"
proof (intro conjI impI)
  assume h: "FileSystem_Open (SQLiteBlobFileSystem__Open E) sqlite_self0 defining w
       = (Inr (), sqlite_self, w')
    \<and> attribute defining ''table_name'' = Inr table_name
    \<and> attribute defining ''column_name'' = Inr column_name"
  from h SQLite_Open_HasParent
  have p: "HasParent defining" "fs_path_spec sqlite_self = Some defining"
          "fs_resolver_context sqlite_self = fs_resolver_context sqlite_self0"
    by blast+
  from p h show "\<exists>entry. SQLiteBlobFileSystem_GetRootFileEntry sqlite_self = Inr entry
           \<and> is_root entry \<and> is_virtual entry
           \<and> fe_type_indicator entry = TYPE_INDICATOR_SQLITE_BLOB
           \<and> fe_resolver_context entry = fs_resolver_context sqlite_self0
           \<and> SQLiteBlobPathSpec table_name column_name PyNone PyNone (parent defining)
               = Inr (fe_path_spec entry)
           \<and> fe_path_spec entry
               = PathSpec TYPE_INDICATOR_SQLITE_BLOB
                   [(''table_name'', table_name), (''column_name'', column_name)]
                   (parent defining)
           \<and> attribute (fe_path_spec entry) ''table_name'' = Inr table_name
           \<and> attribute (fe_path_spec entry) ''column_name'' = Inr column_name
           \<and> parent (fe_path_spec entry) = parent defining
           \<and> map_of (attributes (fe_path_spec entry)) ''row_index'' = None
           \<and> map_of (attributes (fe_path_spec entry)) ''row_condition'' = None"
    by (simp add: SQLiteBlobFileSystem_GetRootFileEntry_def SQLiteBlobPathSpec_def HasParent_def
          given_def SQLiteBlobFileSystem_GetFileEntryByPathSpec_def getattr_def
          SQLiteBlobFileEntry_def is_root_default_def is_virtual_default_def attribute_def)
next
  assume h: "FileSystem_Open (FVDEFileSystem__Open E) fvde_self0 defining w
       = (Inr (), fvde_self, w')"
  from h FVDE_Open_HasParent
  have p: "HasParent defining" "fs_path_spec fvde_self = Some defining"
          "fs_resolver_context fvde_self = fs_resolver_context fvde_self0"
    by blast+
  from p show "\<exists>entry. FVDEFileSystem_GetRootFileEntry fvde_self = Inr entry
           \<and> is_root entry \<and> is_virtual entry
           \<and> fe_type_indicator entry = TYPE_INDICATOR_FVDE
           \<and> fe_resolver_context entry = fs_resolver_context fvde_self0
           \<and> FVDEPathSpec (parent defining) = Inr (fe_path_spec entry)
           \<and> fe_path_spec entry = PathSpec TYPE_INDICATOR_FVDE [] (parent defining)
           \<and> parent (fe_path_spec entry) = parent defining"
    by (simp add: FVDEFileSystem_GetRootFileEntry_def FVDEPathSpec_def HasParent_def
          FVDEFileSystem_GetFileEntryByPathSpec_def FVDEFileEntry_def)
qed

lemma table_opened_eq:
  "FileSystem_Open (SQLiteBlobFileSystem__Open env_unlocks) (SQLiteBlobFileSystem_init 0)
     (row_path_spec 5) world0 = (Inr (), table_opened, world_opened)"
  by (simp add: table_opened_def world_opened_def FileSystem_Open_def
        SQLiteBlobFileSystem__Open_def HasParent_def row_path_spec_def OpenFileObject_def
        env_unlocks_def)

lemma fvde_opened_eq:
  "\<exists>w. FileSystem_Open (FVDEFileSystem__Open env_unlocks) (FVDEFileSystem_init 0)
     fvde_path_spec world0 = (Inr (), fvde_opened, w)"
  by (simp add: fvde_opened_def FileSystem_Open_def FVDEFileSystem__Open_def HasParent_def
        fvde_path_spec_def ExtractCredentialsFromPathSpec_def OpenFileObject_def
        FVDEVolumeOpen_def env_unlocks_def Let_def)

text \<open>
  The table backend opened through its row 5, and the volume backend opened with a
  password: the root entry of the first has the table and the column, no row index, and
  the disk image as parent; the root entry of the second has the disk image as parent
  and no password.
\<close>

theorem GetRootFileEntry_of_open_file_system_witness:
  "(\<exists>entry. SQLiteBlobFileSystem_GetRootFileEntry table_opened = Inr entry
           \<and> is_root entry \<and> is_virtual entry
           \<and> fe_path_spec entry
               = PathSpec TYPE_INDICATOR_SQLITE_BLOB
                   [(''table_name'', PyStr ''blobs''), (''column_name'', PyStr ''data'')]
                   (Some os_path_spec)
           \<and> map_of (attributes (fe_path_spec entry)) ''row_index'' = None)
   \<and> (\<exists>entry. FVDEFileSystem_GetRootFileEntry fvde_opened = Inr entry
           \<and> is_root entry \<and> is_virtual entry
           \<and> fe_path_spec entry = PathSpec TYPE_INDICATOR_FVDE [] (Some os_path_spec))
   \<and> map_of (attributes fvde_path_spec) ''password'' = Some (PyStr ''pw'')"
proof -
  have a: "attribute (row_path_spec 5) ''table_name'' = Inr (PyStr ''blobs'')"
          "attribute (row_path_spec 5) ''column_name'' = Inr (PyStr ''data'')"
    by (simp_all add: attribute_def row_path_spec_def)
  have p: "parent (row_path_spec 5) = Some os_path_spec"
          "parent fvde_path_spec = Some os_path_spec"
    by (simp_all add: row_path_spec_def fvde_path_spec_def)
  from fvde_opened_eq obtain w where
    f: "FileSystem_Open (FVDEFileSystem__Open env_unlocks) (FVDEFileSystem_init 0)
          fvde_path_spec world0 = (Inr (), fvde_opened, w)" ..
  have 1: "\<exists>entry. SQLiteBlobFileSystem_GetRootFileEntry table_opened = Inr entry
           \<and> is_root entry \<and> is_virtual entry
           \<and> fe_path_spec entry
               = PathSpec TYPE_INDICATOR_SQLITE_BLOB
                   [(''table_name'', PyStr ''blobs''), (''column_name'', PyStr ''data'')]
                   (Some os_path_spec)
           \<and> map_of (attributes (fe_path_spec entry)) ''row_index'' = None"
    using GetRootFileEntry_of_open_file_system
            [of env_unlocks "SQLiteBlobFileSystem_init 0" "row_path_spec 5" world0
                table_opened world_opened "PyStr ''blobs''" "PyStr ''data''", THEN conjunct1]
          table_opened_eq a p
    by auto
  have 2: "\<exists>entry. FVDEFileSystem_GetRootFileEntry fvde_opened = Inr entry
           \<and> is_root entry \<and> is_virtual entry
           \<and> fe_path_spec entry = PathSpec TYPE_INDICATOR_FVDE [] (Some os_path_spec)"
    using GetRootFileEntry_of_open_file_system
            [where E = env_unlocks and defining = fvde_path_spec and w = world0
               and ?fvde_self0.0 = "FVDEFileSystem_init 0" and fvde_self = fvde_opened
               and w' = w, THEN conjunct2]
          f p
    by auto
  have 3: "map_of (attributes fvde_path_spec) ''password'' = Some (PyStr ''pw'')"
    by (simp add: fvde_path_spec_def)
  from 1 2 3 show ?thesis by simp
qed

section \<open>The row count\<close>

text \<open>
  A file system that \<open>Open\<close> has just opened holds no row count: the constructor sets
  \<open>_number_of_rows\<close> to \<open>None\<close> and \<open>_Open\<close> does not assign it.
\<close>

lemma opened_has_no_row_count:
  "FileSystem_Open (SQLiteBlobFileSystem__Open E) (SQLiteBlobFileSystem_init ctx) defining w
     = (Inr u, self, w')
   \<Longrightarrow> sqlite_number_of_rows self = None"
  by (auto simp: FileSystem_Open_def SQLiteBlobFileSystem__Open_def SQLiteBlobFileSystem_init_def
        file_system.defs sqlite_blob_file_system.defs
        split: if_splits prod.splits sum.splits)

lemma GetNumberOfRows_stored:
  "sqlite_number_of_rows self = Some n \<Longrightarrow>
   SQLiteBlobFileSystem_GetNumberOfRows E self path_spec w = (Inr n, self, w)"
  by (simp add: SQLiteBlobFileSystem_GetNumberOfRows_def)

lemma GetNumberOfRows_calls_stored:
  "sqlite_number_of_rows self = Some n \<Longrightarrow>
   GetNumberOfRows_calls E self later w = (replicate (length later) (Inr n), self, w)"
  by (induction later) (simp_all add: GetNumberOfRows_stored)

text \<open>
  C7. On an open \<open>SQLiteBlobFileSystem\<close> that holds no row count yet, a call of
  \<open>GetNumberOfRows\<close> that fails stores nothing: it raises what the resolver raised, or
  what the opened stream raised when asked for the count. The first call that succeeds
  opens the underlying stream once, through the resolver, asks the file object it got
  for the count, stores what that file object answered, closes that file object and
  returns the count; and whenever the resolver and the stream both answer, the call
  succeeds so. Every later call, whatever path specification it is given, returns the
  stored count, changes nothing and calls no collaborator, so the stream is not opened
  again.
\<close>

theorem GetNumberOfRows_cached:
  assumes "sqlite_number_of_rows self = None"
  shows "(SQLiteBlobFileSystem_GetNumberOfRows E self path_spec w = (Inl e, self1, w1)
            \<longrightarrow> self1 = self
              \<and> (OpenFileObject E path_spec (fs_resolver_context self) w = (Inl e, w1)
                   \<or> (\<exists>file_object opened.
                         OpenFileObject E path_spec (fs_resolver_context self) w
                           = (Inr file_object, opened)
                       \<and> GetNumberOfRows E file_object opened = (Inl e, w1))))
       \<and> (SQLiteBlobFileSystem_GetNumberOfRows E self path_spec w = (Inr n, self1, w1)
            \<longrightarrow> (\<exists>file_object opened counted.
                   OpenFileObject E path_spec (fs_resolver_context self) w
                     = (Inr file_object, opened)
                 \<and> GetNumberOfRows E file_object opened = (Inr n, counted)
                 \<and> w1 = close file_object counted
                 \<and> calls_since w w1 =
                     [OpenFileObject_call path_spec (fs_resolver_context self),
                      GetNumberOfRows_call file_object, close_call file_object])
              \<and> self1 = self\<lparr>sqlite_number_of_rows := Some n\<rparr>
              \<and> sqlite_number_of_rows self1 = Some n
              \<and> GetNumberOfRows_calls E self1 later w1
                  = (replicate (length later) (Inr n), self1, w1))
       \<and> (OpenFileObject E path_spec (fs_resolver_context self) w = (Inr fo, w2)
            \<and> GetNumberOfRows E fo w2 = (Inr m, w3)
            \<longrightarrow> SQLiteBlobFileSystem_GetNumberOfRows E self path_spec w
                  = (Inr m, self\<lparr>sqlite_number_of_rows := Some m\<rparr>, close fo w3))"
proof (intro conjI impI)
  assume h: "SQLiteBlobFileSystem_GetNumberOfRows E self path_spec w = (Inl e, self1, w1)"
  with assms show "self1 = self"
    by (auto simp: SQLiteBlobFileSystem_GetNumberOfRows_def split: prod.splits sum.splits)
  from h assms
  show "OpenFileObject E path_spec (fs_resolver_context self) w = (Inl e, w1)
          \<or> (\<exists>file_object opened.
                OpenFileObject E path_spec (fs_resolver_context self) w
                  = (Inr file_object, opened)
              \<and> GetNumberOfRows E file_object opened = (Inl e, w1))"
    by (auto simp: SQLiteBlobFileSystem_GetNumberOfRows_def split: prod.splits sum.splits)
next
  assume h: "SQLiteBlobFileSystem_GetNumberOfRows E self path_spec w = (Inr n, self1, w1)"
  from h assms show s: "self1 = self\<lparr>sqlite_number_of_rows := Some n\<rparr>"
    by (auto simp: SQLiteBlobFileSystem_GetNumberOfRows_def split: prod.splits sum.splits)
  from h assms obtain file_object opened counted where
    o: "OpenFileObject E path_spec (fs_resolver_context self) w = (Inr file_object, opened)"
    and c: "GetNumberOfRows E file_object opened = (Inr n, counted)"
    and w1: "w1 = close file_object counted"
    by (auto simp: SQLiteBlobFileSystem_GetNumberOfRows_def split: prod.splits sum.splits)
  from o have t1: "trace opened =
      trace w @ [OpenFileObject_call path_spec (fs_resolver_context self)]"
    by (auto simp: OpenFileObject_def record_call_def split: prod.splits)
  from c have t2: "trace counted = trace opened @ [GetNumberOfRows_call file_object]"
    by (auto simp: GetNumberOfRows_def record_call_def)
  from t1 t2 w1 have "calls_since w w1 =
      [OpenFileObject_call path_spec (fs_resolver_context self),
       GetNumberOfRows_call file_object, close_call file_object]"
    by (simp add: calls_since_def close_def record_call_def)
  with o c w1
  show "\<exists>file_object opened counted.
          OpenFileObject E path_spec (fs_resolver_context self) w = (Inr file_object, opened)
        \<and> GetNumberOfRows E file_object opened = (Inr n, counted)
        \<and> w1 = close file_object counted
        \<and> calls_since w w1 =
            [OpenFileObject_call path_spec (fs_resolver_context self),
             GetNumberOfRows_call file_object, close_call file_object]"
    by blast
  from s show stored: "sqlite_number_of_rows self1 = Some n" by simp
  then show "GetNumberOfRows_calls E self1 later w1
                  = (replicate (length later) (Inr n), self1, w1)"
    by (rule GetNumberOfRows_calls_stored)
next
  assume "OpenFileObject E path_spec (fs_resolver_context self) w = (Inr fo, w2)
            \<and> GetNumberOfRows E fo w2 = (Inr m, w3)"
  with assms show "SQLiteBlobFileSystem_GetNumberOfRows E self path_spec w
                  = (Inr m, self\<lparr>sqlite_number_of_rows := Some m\<rparr>, close fo w3)"
    by (simp add: SQLiteBlobFileSystem_GetNumberOfRows_def)
qed

text \<open>
  The table backend, just opened: the count asked through row 1 opens the stream, gets
  42 from file object 7, stores it and closes file object 7; asked again through row 2
  and through the table, it is returned as stored.
\<close>

theorem GetNumberOfRows_cached_witness:
  "sqlite_number_of_rows table_opened = None
   \<and> SQLiteBlobFileSystem_GetNumberOfRows env_unlocks table_opened (row_path_spec 1) world_opened
       = (Inr 42, table_counted, world_counted)
   \<and> fst (OpenFileObject env_unlocks (row_path_spec 1) 0 world_opened) = Inr 7
   \<and> fst (GetNumberOfRows env_unlocks 7
             (snd (OpenFileObject env_unlocks (row_path_spec 1) 0 world_opened))) = Inr 42
   \<and> calls_since world_opened world_counted
       = [OpenFileObject_call (row_path_spec 1) 0, GetNumberOfRows_call 7, close_call 7]
   \<and> sqlite_number_of_rows table_counted = Some 42
   \<and> GetNumberOfRows_calls env_unlocks table_counted [row_path_spec 2, table_path_spec]
         world_counted
       = ([Inr 42, Inr 42], table_counted, world_counted)"
proof -
  have none: "sqlite_number_of_rows table_opened = None"
    using table_opened_eq by (rule opened_has_no_row_count)
  have ctx: "fs_resolver_context table_opened = 0"
    using SQLite_Open_HasParent [OF table_opened_eq]
    by (simp add: SQLiteBlobFileSystem_init_def FileSystem_init_def file_system.defs)
  have first: "SQLiteBlobFileSystem_GetNumberOfRows env_unlocks table_opened (row_path_spec 1)
                 world_opened = (Inr 42, table_counted, world_counted)"
    by (simp add: table_counted_def world_counted_def SQLiteBlobFileSystem_GetNumberOfRows_def
          none OpenFileObject_def GetNumberOfRows_def env_unlocks_def)
  have opened: "fst (OpenFileObject env_unlocks (row_path_spec 1) 0 world_opened) = Inr 7"
    by (simp add: OpenFileObject_def env_unlocks_def)
  have counted: "fst (GetNumberOfRows env_unlocks 7
             (snd (OpenFileObject env_unlocks (row_path_spec 1) 0 world_opened))) = Inr 42"
    by (simp add: GetNumberOfRows_def env_unlocks_def)
  from GetNumberOfRows_cached [OF none, where E = env_unlocks and path_spec = "row_path_spec 1"
         and w = world_opened and n = 42 and ?self1.0 = table_counted
         and ?w1.0 = world_counted and later = "[row_path_spec 2, table_path_spec]",
         THEN conjunct2, THEN conjunct1]
       first
  have later: "(\<exists>file_object opened counted.
          OpenFileObject env_unlocks (row_path_spec 1) (fs_resolver_context table_opened)
            world_opened = (Inr file_object, opened)
        \<and> GetNumberOfRows env_unlocks file_object opened = (Inr 42, counted)
        \<and> world_counted = close file_object counted
        \<and> calls_since world_opened world_counted =
            [OpenFileObject_call (row_path_spec 1) (fs_resolver_context table_opened),
             GetNumberOfRows_call file_object, close_call file_object])
      \<and> sqlite_number_of_rows table_counted = Some 42
      \<and> GetNumberOfRows_calls env_unlocks table_counted
           [row_path_spec 2, table_path_spec] world_counted
         = (replicate (length [row_path_spec 2, table_path_spec]) (Inr 42),
            table_counted, world_counted)"
    by blast
  then obtain file_object opened' where
    o: "OpenFileObject env_unlocks (row_path_spec 1) (fs_resolver_context table_opened)
            world_opened = (Inr file_object, opened')"
    and calls0: "calls_since world_opened world_counted =
            [OpenFileObject_call (row_path_spec 1) (fs_resolver_context table_opened),
             GetNumberOfRows_call file_object, close_call file_object]"
    by blast
  from o opened ctx have "file_object = 7"
    by simp
  with calls0 ctx have calls: "calls_since world_opened world_counted
      = [OpenFileObject_call (row_path_spec 1) 0, GetNumberOfRows_call 7, close_call 7]"
    by simp
  from later have stored: "sqlite_number_of_rows table_counted = Some 42"
    by blast
  have "replicate (length [row_path_spec 2, table_path_spec]) (Inr 42 :: exn + int)
          = [Inr 42, Inr 42]"
    by simp
  with later have "GetNumberOfRows_calls env_unlocks table_counted
           [row_path_spec 2, table_path_spec] world_counted
         = ([Inr 42, Inr 42], table_counted, world_counted)"
    by metis
  with none first opened counted calls stored show ?thesis
    by blast
qed

end
